theory Spec2Isabelle
  imports Complex_Main "HOL-Library.AList"
begin

section \<open>Symbolic expressions\<close>

text \<open>
  The simulator works on sympy expressions. An expression is a tree: numbers and symbols
  are leaves (their \<open>args\<close> are empty), sums, products and \<open>Max\<close> carry their operands,
  a power carries base and exponent. A quotient \<open>a / b\<close> is the product of \<open>a\<close> and
  \<open>b\<close> to the power \<open>-1\<close>, as in sympy. The automatic rewriting sympy performs when it
  builds a node (a product with a factor \<open>0\<close> is \<open>0\<close>, equal terms are collected)
  is not modelled: two trees are compared through their values (\<open>eval\<close>), not through
  their shape. Rewriting never brings in a symbol, so the symbols of a tree built here
  are an upper bound of the symbols of the expression sympy builds.
\<close>

datatype expr =
    Number real
  | Symbol string
  | Add "expr list"
  | Mul "expr list"
  | Pow_e expr expr
  | Max_e "expr list"

fun args :: "expr \<Rightarrow> expr list" where
  "args (Number r) = []"
| "args (Symbol s) = []"
| "args (Add es) = es"
| "args (Mul es) = es"
| "args (Pow_e b e) = [b, e]"
| "args (Max_e es) = es"

fun is_Symbol :: "expr \<Rightarrow> bool" where
  "is_Symbol (Symbol s) = True"
| "is_Symbol e = False"

text \<open>The set of symbols an expression references anywhere in its tree.\<close>

fun free_symbols :: "expr \<Rightarrow> expr set" where
  "free_symbols (Number r) = {}"
| "free_symbols (Symbol s) = {Symbol s}"
| "free_symbols (Add es) = (\<Union>e \<in> set es. free_symbols e)"
| "free_symbols (Mul es) = (\<Union>e \<in> set es. free_symbols e)"
| "free_symbols (Pow_e b e) = free_symbols b \<union> free_symbols e"
| "free_symbols (Max_e es) = (\<Union>e \<in> set es. free_symbols e)"

text \<open>
  \<open>subs\<close> with a dictionary whose keys are symbols: every symbol that is a key is replaced
  by its value, the rest of the tree is kept.
\<close>

fun subs :: "(expr \<times> expr) list \<Rightarrow> expr \<Rightarrow> expr" where
  "subs d (Number r) = Number r"
| "subs d (Symbol s) = (case map_of d (Symbol s) of Some v \<Rightarrow> v | None \<Rightarrow> Symbol s)"
| "subs d (Add es) = Add (map (subs d) es)"
| "subs d (Mul es) = Mul (map (subs d) es)"
| "subs d (Pow_e b e) = Pow_e (subs d b) (subs d e)"
| "subs d (Max_e es) = Max_e (map (subs d) es)"

text \<open>
  \<open>evalf(subs=...)\<close> puts numbers in the place of the symbols of the dictionary and
  evaluates. The model substitutes and keeps the tree: the floating-point arithmetic and
  the folding of the result are not modelled, so what is meant by a result is its value
  (\<open>eval\<close>), with the symbols that are not keys of the dictionary left as they are.
\<close>

definition evalf :: "(expr \<times> real) list \<Rightarrow> expr \<Rightarrow> expr" where
  "evalf d e = subs (map (\<lambda>(k, v). (k, Number v)) d) e"

text \<open>The value of an expression once every symbol has a value.\<close>

definition pow_real :: "real \<Rightarrow> real \<Rightarrow> real" where
  "pow_real b e = (if e \<in> \<int> then b powi \<lfloor>e\<rfloor> else b powr e)"

fun symbol_name :: "expr \<Rightarrow> string" where
  "symbol_name (Symbol s) = s"
| "symbol_name e = []"

fun eval :: "(string \<Rightarrow> real) \<Rightarrow> expr \<Rightarrow> real" where
  "eval env (Number r) = r"
| "eval env (Symbol s) = env s"
| "eval env (Add es) = sum_list (map (eval env) es)"
| "eval env (Mul es) = prod_list (map (eval env) es)"
| "eval env (Pow_e b e) = pow_real (eval env b) (eval env e)"
| "eval env (Max_e es) = (case map (eval env) es of [] \<Rightarrow> 0 | v # vs \<Rightarrow> fold max vs v)"

section \<open>The fluid approximation\<close>

datatype error =
    KeyError string
  | IndexError
  | AttributeError
  | ZeroDivisionError
  | ValueError string
  | MalformedSyntax

record rate_function =
  sym_function :: expr

record variable =
  symbol :: expr
  str_var :: string

text \<open>
  The keyword arguments the function reads. A key that the caller did not pass is
  \<open>None\<close>, and reading it raises \<open>KeyError\<close>.
\<close>

record kwargs =
  kw_rate_functions_var_ss :: "rate_function list option"
  kw_variables :: "(string \<times> variable) list option"
  kw_system_size :: "real option"

definition getitem :: "string \<Rightarrow> 'a option \<Rightarrow> error + 'a" where
  "getitem key v = (case v of None \<Rightarrow> Inl (KeyError key) | Some x \<Rightarrow> Inr x)"

definition variables_involved :: "rate_function \<Rightarrow> expr list" where
  "variables_involved rate_func =
     (let sym_rate_func = sym_function rate_func;
          args' = args sym_rate_func;
          species_inv = filter is_Symbol args'
      in species_inv)"

text \<open>
  The dictionary from the symbols of the individuals to the symbols of the densities. A
  Python dictionary keeps the position of a key that is assigned again and replaces its
  value, which is what \<open>AList.update\<close> does.
\<close>

definition var_to_substitute_of :: "(string \<times> variable) list \<Rightarrow> (expr \<times> expr) list" where
  "var_to_substitute_of variables =
     fold (\<lambda>var_obj d. AList.update (symbol var_obj) (Symbol (''d_'' @ str_var var_obj)) d)
       (map snd variables) []"

text \<open>
  The initial densities, \<open>[x / system_size for x in initial_conditions]\<close>. Numbers are
  reals here, so the model is the code on numbers whose quotients are finite floats:
  it has no rounding and no \<open>OverflowError\<close> of a quotient too large for a float. On a
  zero system size Python numbers raise \<open>ZeroDivisionError\<close>, which the model takes;
  numpy scalars go on with infinities or NaN instead, which no real number stands for.
  No theorem below concludes anything at a zero system size.
\<close>

definition d_initial_conditions :: "real list \<Rightarrow> real \<Rightarrow> error + real list" where
  "d_initial_conditions initial_conditions system_size =
     (if system_size = 0 \<and> initial_conditions \<noteq> [] then Inl ZeroDivisionError
      else Inr (map (\<lambda>x. x / system_size) initial_conditions))"

text \<open>
  The body of the loop of \<open>scaling\<close> up to the call of \<open>sym.limit\<close>: the expression
  \<open>f_N\<close> whose limit is taken.
\<close>

definition f_N :: "rate_function \<Rightarrow> (expr \<times> expr) list \<Rightarrow> expr" where
  "f_N ratefun substitutor_dict =
     (let N = Symbol ''N'';
          n = length (variables_involved ratefun);
          ratefun = sym_function ratefun;
          ratefun = subs substitutor_dict ratefun;
          ratefun_normalized = Mul [ratefun, Pow_e N (Number (real n))]
      in Mul [ratefun_normalized, Pow_e N (Number (- 1))])"

text \<open>
  \<open>sym.limit(e, N, oo)\<close> is a function of the sympy library; the simulator takes it as
  the parameter \<open>limit\<close>, a function from the expression and the symbol to the limit.
  Nothing is assumed of it here; a theorem that needs the limit to be the true one says
  so with \<open>limit_sound\<close>.
\<close>

definition scaling ::
  "(expr \<Rightarrow> expr \<Rightarrow> expr) \<Rightarrow> rate_function list \<Rightarrow> (expr \<times> expr) list \<Rightarrow> expr list" where
  "scaling limit rate_functions_vector substitutor_dict =
     map (\<lambda>ratefun. limit (f_N ratefun substitutor_dict) (Symbol ''N'')) rate_functions_vector"

text \<open>\<open>limit\<close> is sound on an expression when its result has the value the expression
  tends to as the symbol grows, whatever the values of the other symbols.\<close>

definition limit_sound :: "(expr \<Rightarrow> expr \<Rightarrow> expr) \<Rightarrow> expr \<Rightarrow> string \<Rightarrow> bool" where
  "limit_sound limit e v =
     (\<forall>env. ((\<lambda>n. eval (env(v := n)) e) \<longlongrightarrow> eval env (limit e (Symbol v))) at_top)"

definition linspace :: "real \<Rightarrow> real \<Rightarrow> nat \<Rightarrow> real list" where
  "linspace start stop num =
     map (\<lambda>i. start + real i * ((stop - start) / real (num - 1))) [0..<num]"

text \<open>
  Python's \<open>sum\<close> starts from the integer \<open>0\<close>: the sum of an empty list is that
  integer, which is no sympy expression, and the sum of a list of expressions is an
  expression.
\<close>

datatype summed = PyInt int | Expr expr

definition sum_e :: "expr list \<Rightarrow> summed" where
  "sum_e foo = (if foo = [] then PyInt 0 else Expr (Add (Number 0 # foo)))"

fun value_of :: "(string \<Rightarrow> real) \<Rightarrow> summed \<Rightarrow> real" where
  "value_of env (PyInt n) = of_int n"
| "value_of env (Expr e) = eval env e"

definition create_equations :: "int list list \<Rightarrow> expr list \<Rightarrow> summed list" where
  "create_equations np_matrix symbolic_functions_vector =
     map (\<lambda>i. sum_e (map (\<lambda>(f, elem). Mul [f, Number (of_int elem)])
                        (zip symbolic_functions_vector (np_matrix ! i))))
       [0..<length np_matrix]"

definition index :: "'a list \<Rightarrow> nat \<Rightarrow> error + 'a" where
  "index xs i = (if i < length xs then Inr (xs ! i) else Inl IndexError)"

text \<open>A dictionary display: a key written twice keeps its first position and its last
  value.\<close>

definition dict_of :: "('k \<times> 'v) list \<Rightarrow> ('k \<times> 'v) list" where
  "dict_of kvs = fold (\<lambda>(k, v) d. AList.update k v d) kvs []"

text \<open>The dictionary passed to \<open>evalf\<close> in \<open>spamspamspam\<close>; it is built again for each
  equation, and each of its six subscripts can raise.\<close>

definition subs_dict :: "expr list \<Rightarrow> real list \<Rightarrow> error + (expr \<times> real) list" where
  "subs_dict foofoo x =
     (case index foofoo 0 of Inl e \<Rightarrow> Inl e | Inr k0 \<Rightarrow>
     (case index x 0 of Inl e \<Rightarrow> Inl e | Inr v0 \<Rightarrow>
     (case index foofoo 1 of Inl e \<Rightarrow> Inl e | Inr k1 \<Rightarrow>
     (case index x 1 of Inl e \<Rightarrow> Inl e | Inr v1 \<Rightarrow>
     (case index foofoo 2 of Inl e \<Rightarrow> Inl e | Inr k2 \<Rightarrow>
     (case index x 2 of Inl e \<Rightarrow> Inl e | Inr v2 \<Rightarrow>
      Inr (dict_of [(k0, v0), (k1, v1), (k2, v2)])))))))"

text \<open>
  The loop of \<open>spamspamspam\<close>. In \<open>each.evalf(subs={...})\<close> the attribute \<open>evalf\<close> is
  looked up first: Python's integer \<open>0\<close> has none, which raises \<open>AttributeError\<close>
  before the dictionary is built.
\<close>

fun spam_loop :: "expr list \<Rightarrow> real list \<Rightarrow> summed list \<Rightarrow> error + expr list" where
  "spam_loop foofoo x [] = Inr []"
| "spam_loop foofoo x (PyInt n # rest) = Inl AttributeError"
| "spam_loop foofoo x (Expr each # rest) =
     (case subs_dict foofoo x of
        Inl e \<Rightarrow> Inl e
      | Inr d \<Rightarrow>
          (case spam_loop foofoo x rest of
             Inl e \<Rightarrow> Inl e
           | Inr egg \<Rightarrow> Inr (evalf d each # egg)))"

text \<open>
  \<open>spamspamspam\<close> is a closure: besides the state \<open>x\<close> and the time \<open>t\<close> it reads
  \<open>update_matrix\<close>, \<open>f_funcs\<close> and \<open>var_to_substitute\<close> of the enclosing call.
\<close>

definition spamspamspam ::
  "int list list \<Rightarrow> expr list \<Rightarrow> (expr \<times> expr) list \<Rightarrow> real list \<Rightarrow> real \<Rightarrow> error + expr list" where
  "spamspamspam update_matrix f_funcs var_to_substitute x t =
     (let foofoo = map snd var_to_substitute
      in spam_loop foofoo x (create_equations update_matrix f_funcs))"

text \<open>
  \<open>odeint\<close> is a function of the scipy library; the simulator takes it as a parameter.
  The result of the call is the pair of what was printed and the value returned, where
  \<open>None\<close> is Python's \<open>None\<close>.
\<close>

type_synonym trajectory = "real list list"

type_synonym integrator =
  "(real list \<Rightarrow> real \<Rightarrow> error + expr list) \<Rightarrow> real list \<Rightarrow> real list \<Rightarrow> error + trajectory"

definition fluid_approximation ::
  "(expr \<Rightarrow> expr \<Rightarrow> expr) \<Rightarrow> integrator \<Rightarrow> int list list \<Rightarrow> real list \<Rightarrow> 'fr \<Rightarrow> real \<Rightarrow> kwargs
     \<Rightarrow> error + (trajectory list \<times> (real list \<times> trajectory) option)" where
  "fluid_approximation limit odeint update_matrix initial_conditions function_rate t_max kwargs =
     (case getitem ''rate_functions_var_ss'' (kw_rate_functions_var_ss kwargs) of
        Inl e \<Rightarrow> Inl e
      | Inr rate_funcs_N \<Rightarrow>
     (case getitem ''variables'' (kw_variables kwargs) of
        Inl e \<Rightarrow> Inl e
      | Inr variables \<Rightarrow>
     (case getitem ''system_size'' (kw_system_size kwargs) of
        Inl e \<Rightarrow> Inl e
      | Inr system_size \<Rightarrow>
     (case d_initial_conditions initial_conditions system_size of
        Inl e \<Rightarrow> Inl e
      | Inr d_init \<Rightarrow>
     (let var_to_substitute = var_to_substitute_of variables;
          t = linspace 0 t_max 1000;
          f_funcs = scaling limit rate_funcs_N var_to_substitute
      in case odeint (spamspamspam update_matrix f_funcs var_to_substitute)
                d_init t of
           Inl e \<Rightarrow> Inl e
         | Inr trajectory \<Rightarrow> Inr ([trajectory], None))))))"

section \<open>The compiler front end\<close>

text \<open>
  The module \<open>poppy.core\<close> (classes \<open>Reaction\<close> and \<open>RateFunctionCollection\<close>) and the
  module \<open>poppy.file_parser\<close> are exercised by the tests but their code is not among the
  sources. The definitions of this section follow the specification.
\<close>

definition is_space :: "char \<Rightarrow> bool" where
  "is_space c = (c \<in> set [CHR '' '', CHR 0x09, CHR 0x0A, CHR 0x0B, CHR 0x0C, CHR 0x0D])"

definition is_digit :: "char \<Rightarrow> bool" where
  "is_digit c = (c \<in> set ''0123456789'')"

definition strip :: "string \<Rightarrow> string" where
  "strip s = rev (dropWhile is_space (rev (dropWhile is_space s)))"

fun cons_first :: "char \<Rightarrow> string list \<Rightarrow> string list" where
  "cons_first c [] = [[c]]"
| "cons_first c (p # ps) = (c # p) # ps"

text \<open>Modelled from the spec: splitting a reaction on the arrow \<open>=>\<close> (4.1, "Split on
  the arrow"); it belongs to \<open>poppy.core.Reaction\<close>, which is not among the sources.\<close>

fun split_arrow :: "string \<Rightarrow> string list" where
  "split_arrow [] = [[]]"
| "split_arrow [a] = [[a]]"
| "split_arrow (a # b # cs) =
     (if a = CHR ''='' \<and> b = CHR ''>'' then [] # split_arrow cs
      else cons_first a (split_arrow (b # cs)))"

text \<open>Modelled from the spec: splitting a side of a reaction on \<open>+\<close> (4.1, "then on
  +"); it belongs to \<open>poppy.core.Reaction\<close>, which is not among the sources.\<close>

fun split_plus :: "string \<Rightarrow> string list" where
  "split_plus [] = [[]]"
| "split_plus (c # cs) =
     (if c = CHR ''+'' then [] # split_plus cs else cons_first c (split_plus cs))"

definition nat_of_digits :: "string \<Rightarrow> nat" where
  "nat_of_digits ds = fold (\<lambda>c n. 10 * n + (of_char c - 48)) ds 0"

text \<open>Modelled from the spec: one term \<open>[integer-coefficient]species-name\<close> of a reaction
  (4.1, "strip a leading integer multiplier", coefficient 1 when there is none); it belongs
  to \<open>poppy.core.Reaction\<close>, which is not among the sources. The result is the coefficient
  and the remaining token.\<close>

definition parse_term :: "string \<Rightarrow> nat \<times> string" where
  "parse_term t =
     (let s = strip t;
          ds = takeWhile is_digit s;
          name = strip (dropWhile is_digit s)
      in (if ds = [] then 1 else nat_of_digits ds, name))"

fun index_of :: "'a \<Rightarrow> 'a list \<Rightarrow> nat option" where
  "index_of a [] = None"
| "index_of a (x # xs) = (if a = x then Some 0 else map_option Suc (index_of a xs))"

definition unable_to_find :: "string \<Rightarrow> string" where
  "unable_to_find name =
     ''Unable to find reagent '' @ [CHR 0x27] @ name @ [CHR 0x27] @
     '' inside the list of variables''"

text \<open>Modelled from the spec: resolving the terms of one side against the species registry
  and adding their signed coefficients to the update vector (3, "update_vector[i] = product
  coeff - reactant coeff"; 4.1, "Unresolved token -> failure reporting the missing reagent's
  name"); it belongs to \<open>poppy.core.Reaction\<close>, which is not among the sources.\<close>

fun add_terms :: "string list \<Rightarrow> int \<Rightarrow> string list \<Rightarrow> int list \<Rightarrow> error + int list" where
  "add_terms species sign [] v = Inr v"
| "add_terms species sign (t # ts) v =
     (case index_of (snd (parse_term t)) species of
        None \<Rightarrow> Inl (ValueError (unable_to_find (snd (parse_term t))))
      | Some i \<Rightarrow> add_terms species sign ts (v[i := v ! i + sign * int (fst (parse_term t))]))"

record reaction =
  update_vector :: "int list"

text \<open>Modelled from the spec: the constructor of \<open>poppy.core.Reaction\<close>, which is not among
  the sources (4.1). The species registry is the ordered list of the species' names. The
  specification gives no behaviour for a string without exactly one arrow; the model
  rejects it as malformed.\<close>

definition Reaction :: "string \<Rightarrow> string list \<Rightarrow> error + reaction" where
  "Reaction str_reaction species =
     (case split_arrow str_reaction of
        [pre, post] \<Rightarrow>
          (case add_terms species (- 1) (split_plus pre) (replicate (length species) 0) of
             Inl e \<Rightarrow> Inl e
           | Inr v \<Rightarrow>
               (case add_terms species 1 (split_plus post) v of
                  Inl e \<Rightarrow> Inl e
                | Inr v' \<Rightarrow> Inr \<lparr>update_vector = v'\<rparr>))
      | _ \<Rightarrow> Inl MalformedSyntax)"

text \<open>
  The coefficient of a species on one side of a reaction, in the words of the
  specification (3, "reactant/product multisets over species"): the sum of the
  coefficients of the terms of that side that name the species.
\<close>

definition coefficient :: "string \<Rightarrow> string list \<Rightarrow> int" where
  "coefficient name ts =
     sum_list (map (\<lambda>t. int (fst (parse_term t))) (filter (\<lambda>t. snd (parse_term t) = name) ts))"

text \<open>The decimal digits of a natural number, as Python formats it in a message.\<close>

fun str_nat :: "nat \<Rightarrow> string" where
  "str_nat n =
     (if n < 10 then [''0123456789'' ! n]
      else str_nat (n div 10) @ [''0123456789'' ! (n mod 10)])"

declare str_nat.simps [simp del]

definition shapes_mismatch :: "nat \<Rightarrow> nat \<Rightarrow> string" where
  "shapes_mismatch k m =
     ''Array shapes mismatch: input vector '' @ str_nat k @ '', rate functions '' @
     str_nat m @ ''.''"

text \<open>Modelled from the spec: evaluating a \<open>poppy.core.RateFunctionCollection\<close>, which is
  not among the sources, at a state (4.3): the length of the state is compared with the
  number of rate functions, and each species symbol is replaced by the component of the
  state at the species' position.\<close>

definition evaluate :: "string list \<Rightarrow> rate_function list \<Rightarrow> real list \<Rightarrow> error + expr list" where
  "evaluate species rate_functions state =
     (if length state \<noteq> length rate_functions
      then Inl (ValueError (shapes_mismatch (length state) (length rate_functions)))
      else Inr (map (\<lambda>rf. evalf (zip (map Symbol species) state) (sym_function rf))
                  rate_functions))"

text \<open>Modelled from the spec: \<open>poppy.file_parser.yaml_string_to_dict_converter\<close>, which is
  not among the sources (6, "An empty/blank document parses to an absent result, not an
  error"; 7, "EmptyDocument-as-value"). The parser of a document that is not blank is the
  parameter \<open>load\<close>; a malformed document is an error of \<open>load\<close>.\<close>

definition yaml_string_to_dict_converter ::
  "(string \<Rightarrow> error + 'doc) \<Rightarrow> string \<Rightarrow> error + 'doc option" where
  "yaml_string_to_dict_converter load s =
     (if list_all is_space s then Inr None
      else case load s of Inl e \<Rightarrow> Inl e | Inr doc \<Rightarrow> Inr (Some doc))"

section \<open>The example model of the tests\<close>

text \<open>
  The test file carries one complete model (\<open>example_input_text\<close>): the species
  \<open>x_s\<close>, \<open>x_i\<close>, \<open>x_r\<close>, the reactions \<open>x_s + x_i => x_i + x_i\<close>, \<open>x_i => x_r\<close> and
  \<open>x_r => x_s\<close> with the rate functions \<open>k_i * x_i * x_s / N\<close>, \<open>k_r * x_i\<close> and
  \<open>k_s * x_r\<close>, the parameters \<open>k_i = 1\<close>, \<open>k_r = 0.05\<close>, \<open>k_s = 0.01\<close>, the initial
  conditions \<open>80\<close>, \<open>20\<close>, \<open>0\<close> and the system size \<open>100\<close>. Its update matrix stacks the
  update vectors of the three reactions.
\<close>

definition example_update_matrix :: "int list list" where
  "example_update_matrix = [[- 1, 1, 0], [0, - 1, 1], [1, 0, - 1]]"

definition example_initial_conditions :: "real list" where
  "example_initial_conditions = [80, 20, 0]"

definition example_kwargs :: kwargs where
  "example_kwargs =
     \<lparr>kw_rate_functions_var_ss = Some
        [\<lparr>sym_function = Mul [Symbol ''x_i'', Symbol ''x_s'', Pow_e (Symbol ''N'') (Number (- 1))]\<rparr>,
         \<lparr>sym_function = Mul [Number (5 / 100), Symbol ''x_i'']\<rparr>,
         \<lparr>sym_function = Mul [Number (1 / 100), Symbol ''x_r'']\<rparr>],
      kw_variables = Some
        [(''x_s'', \<lparr>symbol = Symbol ''x_s'', str_var = ''x_s''\<rparr>),
         (''x_i'', \<lparr>symbol = Symbol ''x_i'', str_var = ''x_i''\<rparr>),
         (''x_r'', \<lparr>symbol = Symbol ''x_r'', str_var = ''x_r''\<rparr>)],
      kw_system_size = Some 100\<rparr>"

section \<open>The value returned by the entry point\<close>

lemma length_linspace: "length (linspace start stop num) = num"
  by (simp add: linspace_def)

lemma fluid_approximation_never_a_pair:
  "fluid_approximation limit odeint update_matrix initial_conditions function_rate t_max kwargs
     \<noteq> Inr (out, Some r)"
  by (simp add: fluid_approximation_def Let_def split: sum.splits)

text \<open>
  C1, as the code has it. When the three keyword arguments are present, the system size
  is not zero and the integrator answers a trajectory on the grid of 1000 points from
  \<open>0\<close> to \<open>t_max\<close>, \<open>fluid_approximation\<close> prints that trajectory and returns \<open>None\<close>:
  neither the grid nor the trajectory is returned.
\<close>

theorem fluid_approximation_prints_and_returns_None:
  assumes "kw_rate_functions_var_ss kwargs = Some rate_funcs_N"
    and "kw_variables kwargs = Some variables"
    and "kw_system_size kwargs = Some system_size"
    and "system_size \<noteq> 0"
    and "odeint (spamspamspam update_matrix
                   (scaling limit rate_funcs_N (var_to_substitute_of variables))
                   (var_to_substitute_of variables))
           (map (\<lambda>x. x / system_size) initial_conditions) (linspace 0 t_max 1000) = Inr trajectory"
  shows "fluid_approximation limit odeint update_matrix initial_conditions function_rate t_max kwargs
           = Inr ([trajectory], None) \<and>
         length (linspace 0 t_max 1000) = 1000"
  using assms
  by (simp add: fluid_approximation_def getitem_def d_initial_conditions_def length_linspace)

text \<open>
  The theorem at the example model, with an integrator that answers the constant
  trajectory of the initial densities.
\<close>

theorem fluid_approximation_prints_and_returns_None_witness:
  "fluid_approximation (\<lambda>e z. e) (\<lambda>f y0 ts. Inr (map (\<lambda>t. y0) ts))
        example_update_matrix example_initial_conditions () 10 example_kwargs
     = Inr ([map (\<lambda>t. [80 / 100, 20 / 100, 0 / 100]) (linspace 0 10 1000)], None) \<and>
   length (linspace 0 10 1000) = 1000"
  using fluid_approximation_prints_and_returns_None[where system_size = 100
      and limit = "\<lambda>e z. e" and odeint = "\<lambda>f y0 ts. Inr (map (\<lambda>t. y0) ts)"
      and update_matrix = example_update_matrix
      and initial_conditions = example_initial_conditions and function_rate = "()" and t_max = 10
      and trajectory = "map (\<lambda>t. [80 / 100, 20 / 100, 0 / 100]) (linspace 0 10 1000)"
      and kwargs = example_kwargs]
  by (simp add: example_kwargs_def example_initial_conditions_def)

text \<open>
  C1 as stated fails: at the example model, whatever \<open>limit\<close> and \<open>odeint\<close> answer, the
  call never returns a pair of a time grid and a trajectory; and with an integrator that
  answers a trajectory the value returned is \<open>None\<close>.
\<close>

theorem fluid_approximation_returns_None_counterexample:
  "(\<forall>limit odeint out r.
      fluid_approximation limit odeint example_update_matrix example_initial_conditions () 10
        example_kwargs \<noteq> Inr (out, Some r)) \<and>
   (\<forall>limit.
      fluid_approximation limit (\<lambda>f y0 ts. Inr (map (\<lambda>t. y0) ts))
        example_update_matrix example_initial_conditions () 10 example_kwargs
      = Inr ([map (\<lambda>t. [8 / 10, 2 / 10, 0]) (linspace 0 10 1000)], None))"
  by (simp add: fluid_approximation_def getitem_def d_initial_conditions_def Let_def
      example_kwargs_def example_initial_conditions_def split: sum.splits)

section \<open>The assembled equations\<close>

lemma value_of_sum_e: "value_of env (sum_e foo) = sum_list (map (eval env) foo)"
  by (simp add: sum_e_def)

lemma create_equations_length: "length (create_equations np_matrix fs) = length np_matrix"
  by (simp add: create_equations_def)

text \<open>
  What \<open>create_equations\<close> computes: one equation per row of the matrix, the sum along
  the row of the entries times the limit fields at the same position.
\<close>

lemma create_equations_row:
  assumes "i < length np_matrix"
  shows "value_of env (create_equations np_matrix fs ! i) =
         (\<Sum>j < min (length fs) (length (np_matrix ! i)).
            eval env (fs ! j) * of_int (np_matrix ! i ! j))"
proof -
  let ?row = "np_matrix ! i"
  have "value_of env (create_equations np_matrix fs ! i) =
        sum_list (map (\<lambda>(f, elem). eval env f * of_int elem) (zip fs ?row))"
    using assms by (simp add: create_equations_def value_of_sum_e o_def split_def)
  also have "\<dots> = (\<Sum>j < length (zip fs ?row). eval env (fs ! j) * of_int (?row ! j))"
    by (simp add: sum_list_sum_nth atLeast0LessThan split_def)
  finally show ?thesis by simp
qed

text \<open>
  C2 at the example model, for any three limit fields \<open>f0\<close>, \<open>f1\<close>, \<open>f2\<close>: the equation of
  index \<open>0\<close> that the code assembles has the value \<open>- f0 + f1\<close> (the row of the first
  reaction), while the sum over the reactions \<open>r\<close> of \<open>update_matrix[r][0]\<close> times the
  field of \<open>r\<close>, the field of the species \<open>x_s\<close>, is \<open>- f0 + f2\<close>.
\<close>

theorem create_equations_example_row_not_column:
  "value_of env (create_equations example_update_matrix [f0, f1, f2] ! 0)
     = - eval env f0 + eval env f1 \<and>
   (\<Sum>r < 3. of_int (example_update_matrix ! r ! 0) * eval env ([f0, f1, f2] ! r))
     = - eval env f0 + eval env f2"
  by (simp add: create_equations_def sum_e_def lessThan_Suc eval_nat_numeral
      example_update_matrix_def)

section \<open>The exponent of the scaling\<close>

text \<open>
  C3 at two rate functions. For the single symbol \<open>x_i\<close> (what \<open>k_i * x_i\<close> compiles to when
  \<open>k_i = 1\<close>) \<open>variables_involved\<close> is empty, so the exponent is \<open>0\<close>, while the expression
  references one species. For the third rate function of the tests,
  \<open>-6.0*x_s*x_i/Max(x_i, x_s) + 1.0*x_i + x_r\<close>, \<open>variables_involved\<close> is \<open>[x_r]\<close>, so the
  exponent is \<open>1\<close>, while the expression references three species.
\<close>

theorem variables_involved_top_level_only:
  "length (variables_involved \<lparr>sym_function = Symbol ''x_i''\<rparr>) = 0 \<and>
   card (free_symbols (Symbol ''x_i'')) = 1 \<and>
   variables_involved \<lparr>sym_function =
      Add [Symbol ''x_r'', Mul [Number 1, Symbol ''x_i''],
           Mul [Number (- 6), Symbol ''x_i'', Symbol ''x_s'',
                Pow_e (Max_e [Symbol ''x_i'', Symbol ''x_s'']) (Number (- 1))]]\<rparr> = [Symbol ''x_r''] \<and>
   card (free_symbols (Add [Symbol ''x_r'', Mul [Number 1, Symbol ''x_i''],
           Mul [Number (- 6), Symbol ''x_i'', Symbol ''x_s'',
                Pow_e (Max_e [Symbol ''x_i'', Symbol ''x_s'']) (Number (- 1))]])) = 3"
proof -
  have "free_symbols (Add [Symbol ''x_r'', Mul [Number 1, Symbol ''x_i''],
           Mul [Number (- 6), Symbol ''x_i'', Symbol ''x_s'',
                Pow_e (Max_e [Symbol ''x_i'', Symbol ''x_s'']) (Number (- 1))]])
        = {Symbol ''x_s'', Symbol ''x_i'', Symbol ''x_r''}"
    by auto
  moreover have "card {Symbol ''x_s'', Symbol ''x_i'', Symbol ''x_r''} = 3"
    by simp
  ultimately show ?thesis
    by (simp add: variables_involved_def)
qed

section \<open>The limit of a constant rate\<close>

lemma filter_is_Symbol_closed:
  "free_symbols e = {} \<Longrightarrow> filter is_Symbol (args e) = []"
proof (cases e)
  case (Add es)
  assume h: "free_symbols e = {}"
  have "\<not> is_Symbol a" if "a \<in> set es" for a
  proof (cases a)
    case (Symbol s) with that h Add show ?thesis by auto
  qed simp_all
  then show ?thesis using Add by (simp add: filter_empty_conv)
next
  case (Mul es)
  assume h: "free_symbols e = {}"
  have "\<not> is_Symbol a" if "a \<in> set es" for a
  proof (cases a)
    case (Symbol s) with that h Mul show ?thesis by auto
  qed simp_all
  then show ?thesis using Mul by (simp add: filter_empty_conv)
next
  case (Max_e es)
  assume h: "free_symbols e = {}"
  have "\<not> is_Symbol a" if "a \<in> set es" for a
  proof (cases a)
    case (Symbol s) with that h Max_e show ?thesis by auto
  qed simp_all
  then show ?thesis using Max_e by (simp add: filter_empty_conv)
next
  case (Pow_e b x)
  assume h: "free_symbols e = {}"
  then show ?thesis using Pow_e by (cases b; cases x) auto
qed simp_all

lemma subs_closed: "free_symbols e = {} \<Longrightarrow> subs d e = e"
  by (induction e) (auto intro: map_idI)

lemma eval_closed: "free_symbols e = {} \<Longrightarrow> eval env e = eval env' e"
proof (induction e)
  case (Add es)
  then have "map (eval env) es = map (eval env') es" by auto
  then show ?case by (simp only: eval.simps)
next
  case (Mul es)
  then have "map (eval env) es = map (eval env') es" by auto
  then show ?case by (simp only: eval.simps)
next
  case (Max_e es)
  then have "map (eval env) es = map (eval env') es" by auto
  then show ?case by (simp only: eval.simps)
qed auto

lemma pow_real_0: "pow_real b 0 = 1"
  by (simp add: pow_real_def)

lemma pow_real_minus1: "pow_real b (- 1) = inverse b"
  by (simp add: pow_real_def power_int_minus1_right floor_minus)

text \<open>For a rate expression without symbols the exponent is \<open>0\<close> and \<open>f_N\<close> is the
  constant over \<open>N\<close>.\<close>

lemma eval_f_N_closed:
  assumes "free_symbols (sym_function ratefun) = {}"
  shows "eval (env(''N'' := n)) (f_N ratefun d) = eval env (sym_function ratefun) * inverse n"
proof -
  have "variables_involved ratefun = []"
    using assms by (simp add: variables_involved_def filter_is_Symbol_closed)
  moreover have "eval (env(''N'' := n)) (sym_function ratefun) = eval env (sym_function ratefun)"
    using assms by (rule eval_closed)
  ultimately show ?thesis
    using assms by (simp add: f_N_def Let_def subs_closed pow_real_0 pow_real_minus1)
qed

lemma tendsto_const_over: "((\<lambda>n::real. c * inverse n) \<longlongrightarrow> 0) at_top"
proof -
  have "((\<lambda>n::real. inverse n) \<longlongrightarrow> 0) at_top"
    by (rule tendsto_inverse_0_at_top) (rule filterlim_ident)
  from tendsto_mult_left[OF this, of c] show ?thesis by simp
qed

lemma limit_sound_zero_const:
  "limit_sound (\<lambda>e z. Number 0) (f_N \<lparr>sym_function = Number c\<rparr> []) ''N''"
  unfolding limit_sound_def
proof
  fix env
  have "free_symbols (sym_function \<lparr>sym_function = Number c\<rparr>) = {}" by simp
  from eval_f_N_closed[OF this]
  show "((\<lambda>n. eval (env(''N'' := n)) (f_N \<lparr>sym_function = Number c\<rparr> [])) \<longlongrightarrow>
          eval env (Number 0)) at_top"
    using tendsto_const_over[of c] by simp
qed

text \<open>
  C4, as the code has it. For a rate function that references no symbol, the limit field
  that \<open>scaling\<close> yields has the value \<open>0\<close>, whenever \<open>limit\<close> is sound on the expression
  \<open>f_N\<close> of that rate function.
\<close>

theorem constant_rate_limit_is_zero:
  assumes "i < length rate_functions_vector"
    and "free_symbols (sym_function (rate_functions_vector ! i)) = {}"
    and "limit_sound limit (f_N (rate_functions_vector ! i) substitutor_dict) ''N''"
  shows "eval env (scaling limit rate_functions_vector substitutor_dict ! i) = 0"
proof -
  let ?rf = "rate_functions_vector ! i"
  let ?f = "limit (f_N ?rf substitutor_dict) (Symbol ''N'')"
  have "((\<lambda>n. eval (env(''N'' := n)) (f_N ?rf substitutor_dict)) \<longlongrightarrow> eval env ?f) at_top"
    using assms(3) by (simp add: limit_sound_def)
  then have "((\<lambda>n. eval env (sym_function ?rf) * inverse n) \<longlongrightarrow> eval env ?f) at_top"
    by (simp add: eval_f_N_closed[OF assms(2)])
  then have "eval env ?f = 0"
    using tendsto_const_over by (rule tendsto_unique[OF trivial_limit_at_top_linorder])
  then show ?thesis using assms(1) by (simp add: scaling_def)
qed

text \<open>The theorem at the constant \<open>-2\<close>, the first rate function of the tests
  (\<open>4 - 6\<close>), with the limit that answers \<open>0\<close>.\<close>

theorem constant_rate_limit_is_zero_witness:
  "0 < length [\<lparr>sym_function = Number (- 2)\<rparr>] \<and>
   free_symbols (sym_function ([\<lparr>sym_function = Number (- 2)\<rparr>] ! 0)) = {} \<and>
   limit_sound (\<lambda>e z. Number 0) (f_N ([\<lparr>sym_function = Number (- 2)\<rparr>] ! 0) []) ''N'' \<and>
   eval (\<lambda>s. 0) (scaling (\<lambda>e z. Number 0) [\<lparr>sym_function = Number (- 2)\<rparr>] [] ! 0) = 0"
  using constant_rate_limit_is_zero[of 0 "[\<lparr>sym_function = Number (- 2)\<rparr>]"
      "\<lambda>e z. Number 0" "[]" "\<lambda>s. 0"]
    limit_sound_zero_const[of "- 2"]
  by simp

text \<open>
  C4 as stated fails at the constant \<open>-2\<close>: the limit that answers \<open>0\<close> is sound on its
  \<open>f_N\<close>, \<open>scaling\<close> yields \<open>0\<close>, and \<open>0\<close> is not the value of the constant.
\<close>

theorem constant_rate_limit_counterexample:
  "limit_sound (\<lambda>e z. Number 0) (f_N \<lparr>sym_function = Number (- 2)\<rparr> []) ''N'' \<and>
   scaling (\<lambda>e z. Number 0) [\<lparr>sym_function = Number (- 2)\<rparr>] [] = [Number 0] \<and>
   eval (\<lambda>s. 0) (Number 0) \<noteq> eval (\<lambda>s. 0) (sym_function \<lparr>sym_function = Number (- 2)\<rparr>)"
  using limit_sound_zero_const[of "- 2"] by (simp add: scaling_def)

section \<open>The evaluation of the field\<close>

lemma subs_dict_eq:
  "subs_dict foofoo x =
     (if length foofoo < 3 \<or> length x < 3 then Inl IndexError
      else Inr (dict_of [(foofoo ! 0, x ! 0), (foofoo ! 1, x ! 1), (foofoo ! 2, x ! 2)]))"
  by (auto simp add: subs_dict_def index_def)

lemma spam_loop_exprs:
  "spam_loop foofoo x (map Expr es) =
     (if es = [] then Inr []
      else case subs_dict foofoo x of Inl e \<Rightarrow> Inl e | Inr d \<Rightarrow> Inr (map (evalf d) es))"
  by (induction es) (auto split: sum.splits)

text \<open>With no rate function every sum is Python's integer \<open>0\<close>, and the evaluation
  raises \<open>AttributeError\<close> at the first row.\<close>

lemma spamspamspam_no_rate_function:
  "update_matrix \<noteq> [] \<Longrightarrow>
   spamspamspam update_matrix [] var_to_substitute x t = Inl AttributeError"
proof -
  assume ne: "update_matrix \<noteq> []"
  have "create_equations update_matrix [] = replicate (length update_matrix) (PyInt 0)"
    by (simp add: create_equations_def sum_e_def map_replicate_const)
  then show ?thesis
    using ne by (cases update_matrix) (simp_all add: spamspamspam_def)
qed

lemma create_equations_exprs:
  assumes "f_funcs \<noteq> []" and "[] \<notin> set update_matrix"
  shows "create_equations update_matrix f_funcs =
         map (\<lambda>row. Expr (Add (Number 0 #
                map (\<lambda>(f, elem). Mul [f, Number (of_int elem)]) (zip f_funcs row))))
           update_matrix"
proof -
  have "zip f_funcs (update_matrix ! i) \<noteq> []" if "i < length update_matrix" for i
  proof -
    from that assms(2) have "update_matrix ! i \<noteq> []" by (metis nth_mem)
    with assms(1) show ?thesis by (cases f_funcs; cases "update_matrix ! i") auto
  qed
  note nonempty = this
  show ?thesis
  proof (rule nth_equalityI)
    show "length (create_equations update_matrix f_funcs) =
          length (map (\<lambda>row. Expr (Add (Number 0 #
                map (\<lambda>(f, elem). Mul [f, Number (of_int elem)]) (zip f_funcs row))))
           update_matrix)"
      by (simp add: create_equations_def)
  next
    fix i
    assume "i < length (create_equations update_matrix f_funcs)"
    then have i: "i < length update_matrix" by (simp add: create_equations_def)
    from nonempty[OF i] i
    show "create_equations update_matrix f_funcs ! i =
          map (\<lambda>row. Expr (Add (Number 0 #
                map (\<lambda>(f, elem). Mul [f, Number (of_int elem)]) (zip f_funcs row))))
           update_matrix ! i"
      by (simp add: create_equations_def sum_e_def)
  qed
qed

lemma eval_subs:
  "eval env (subs d e) =
   eval (\<lambda>s. case map_of d (Symbol s) of Some v \<Rightarrow> eval env v | None \<Rightarrow> env s) e"
proof (induction e)
  case (Add es)
  then have "map (eval env \<circ> subs d) es =
    map (eval (\<lambda>s. case map_of d (Symbol s) of Some v \<Rightarrow> eval env v | None \<Rightarrow> env s)) es"
    by auto
  then show ?case by (simp only: subs.simps eval.simps map_map)
next
  case (Mul es)
  then have "map (eval env \<circ> subs d) es =
    map (eval (\<lambda>s. case map_of d (Symbol s) of Some v \<Rightarrow> eval env v | None \<Rightarrow> env s)) es"
    by auto
  then show ?case by (simp only: subs.simps eval.simps map_map)
next
  case (Max_e es)
  then have "map (eval env \<circ> subs d) es =
    map (eval (\<lambda>s. case map_of d (Symbol s) of Some v \<Rightarrow> eval env v | None \<Rightarrow> env s)) es"
    by auto
  then show ?case by (simp only: subs.simps eval.simps map_map)
qed (auto split: option.splits)

lemma map_of_dict_of3:
  "map_of (dict_of [(k0, v0), (k1, v1), (k2, v2)]) = [k0 \<mapsto> v0, k1 \<mapsto> v1, k2 \<mapsto> v2]"
  by (auto simp add: dict_of_def update_conv' fun_eq_iff)

lemma eval_evalf3:
  "eval env (evalf (dict_of [(Symbol n0, v0), (Symbol n1, v1), (Symbol n2, v2)]) e) =
   eval (env(n0 := v0, n1 := v1, n2 := v2)) e"
proof -
  let ?d = "dict_of [(Symbol n0, v0), (Symbol n1, v1), (Symbol n2, v2)]"
  have "map_of (map (\<lambda>(k, v). (k, Number v)) ?d) = map_option Number \<circ> map_of ?d"
    by (rule map_of_map)
  then have "(\<lambda>s. case map_of (map (\<lambda>(k, v). (k, Number v)) ?d) (Symbol s) of
                     Some v \<Rightarrow> eval env v | None \<Rightarrow> env s) = env(n0 := v0, n1 := v1, n2 := v2)"
    by (auto simp add: map_of_dict_of3 fun_eq_iff)
  then show ?thesis by (simp add: evalf_def eval_subs)
qed

lemma update_fresh: "k \<notin> fst ` set al \<Longrightarrow> AList.update k v al = al @ [(k, v)]"
  by (induction al) auto

lemma fold_update_distinct:
  assumes "distinct (map symbol vs)" and "set (map symbol vs) \<inter> fst ` set acc = {}"
  shows "fold (\<lambda>var_obj d. AList.update (symbol var_obj) (Symbol (''d_'' @ str_var var_obj)) d) vs acc
         = acc @ map (\<lambda>v. (symbol v, Symbol (''d_'' @ str_var v))) vs"
  using assms
proof (induction vs arbitrary: acc)
  case Nil
  then show ?case by simp
next
  case (Cons a vs)
  from Cons.prems have fresh: "symbol a \<notin> fst ` set acc" by auto
  have "set (map symbol vs) \<inter> fst ` set (acc @ [(symbol a, Symbol (''d_'' @ str_var a))]) = {}"
    using Cons.prems by auto
  with Cons.IH[of "acc @ [(symbol a, Symbol (''d_'' @ str_var a))]"] Cons.prems fresh
  show ?case by (simp add: update_fresh)
qed

lemma var_to_substitute_of_distinct:
  "distinct (map (symbol \<circ> snd) variables) \<Longrightarrow>
   var_to_substitute_of variables =
     map (\<lambda>v. (symbol v, Symbol (''d_'' @ str_var v))) (map snd variables)"
  using fold_update_distinct[of "map snd variables" "[]"]
  by (simp add: var_to_substitute_of_def)

lemma nth_of_take_3: "3 \<le> length xs \<Longrightarrow> 3 \<le> length ys \<Longrightarrow> take 3 ys = take 3 xs \<Longrightarrow>
   ys ! 0 = xs ! 0 \<and> ys ! 1 = xs ! 1 \<and> ys ! 2 = xs ! 2"
  by (metis nth_take numeral_3_eq_3 zero_less_Suc One_nat_def lessI less_Suc_eq numeral_2_eq_2)

text \<open>
  C9, as the code has it, for a model whose species have distinct symbols, with at least
  one rate function and an update matrix that has at least one row and no empty row.
  With fewer than three species, or a state of fewer than three components,
  \<open>spamspamspam\<close> raises \<open>IndexError\<close>. Otherwise it returns one value per row of the
  matrix; whatever the values of the other symbols, the value of each result is the
  value of its equation with the density symbols of the first three species at \<open>x[0]\<close>,
  \<open>x[1]\<close> and \<open>x[2]\<close>, so that a later density symbol is left as it is; and no other
  component of the state is read.
\<close>

theorem spamspamspam_first_three_symbols:
  assumes "update_matrix \<noteq> []" and "[] \<notin> set update_matrix" and "f_funcs \<noteq> []"
    and "distinct (map (symbol \<circ> snd) variables)"
  shows "(length variables < 3 \<or> length x < 3 \<longrightarrow>
            spamspamspam update_matrix f_funcs (var_to_substitute_of variables) x t
              = Inl IndexError) \<and>
         (3 \<le> length variables \<and> 3 \<le> length x \<longrightarrow>
            (\<exists>egg. spamspamspam update_matrix f_funcs (var_to_substitute_of variables) x t
                     = Inr egg \<and>
               length egg = length update_matrix \<and>
               (\<forall>i < length egg. \<forall>env.
                  eval env (egg ! i) =
                  value_of (env(''d_'' @ str_var (snd (variables ! 0)) := x ! 0,
                                ''d_'' @ str_var (snd (variables ! 1)) := x ! 1,
                                ''d_'' @ str_var (snd (variables ! 2)) := x ! 2))
                    (create_equations update_matrix f_funcs ! i)) \<and>
               (\<forall>x'. 3 \<le> length x' \<and> take 3 x' = take 3 x \<longrightarrow>
                  spamspamspam update_matrix f_funcs (var_to_substitute_of variables) x' t
                    = Inr egg)))"
proof -
  let ?d = "var_to_substitute_of variables"
  let ?foofoo = "map snd ?d"
  let ?es = "map (\<lambda>row. Add (Number 0 #
                map (\<lambda>(f, elem). Mul [f, Number (of_int elem)]) (zip f_funcs row)))
              update_matrix"
  have d: "?d = map (\<lambda>v. (symbol v, Symbol (''d_'' @ str_var v))) (map snd variables)"
    using assms(4) by (rule var_to_substitute_of_distinct)
  then have foofoo: "?foofoo = map (\<lambda>v. Symbol (''d_'' @ str_var (snd v))) variables"
    by (simp add: o_def)
  have len: "length ?foofoo = length variables" by (simp add: foofoo)
  have eqs: "create_equations update_matrix f_funcs = map Expr ?es"
    using create_equations_exprs[OF assms(3) assms(2)] by (simp add: o_def)
  have ne: "?es \<noteq> []" using assms(1) by simp
  have run: "spamspamspam update_matrix f_funcs ?d y t =
             (case subs_dict ?foofoo y of Inl e \<Rightarrow> Inl e | Inr dd \<Rightarrow> Inr (map (evalf dd) ?es))"
    for y
    unfolding spamspamspam_def Let_def eqs spam_loop_exprs using ne by simp
  have short: "spamspamspam update_matrix f_funcs ?d x t = Inl IndexError"
    if "length variables < 3 \<or> length x < 3"
    using that len by (simp add: run subs_dict_eq)
  have long: "\<exists>egg. spamspamspam update_matrix f_funcs ?d x t = Inr egg \<and>
               length egg = length update_matrix \<and>
               (\<forall>i < length egg. \<forall>env.
                  eval env (egg ! i) =
                  value_of (env(''d_'' @ str_var (snd (variables ! 0)) := x ! 0,
                                ''d_'' @ str_var (snd (variables ! 1)) := x ! 1,
                                ''d_'' @ str_var (snd (variables ! 2)) := x ! 2))
                    (create_equations update_matrix f_funcs ! i)) \<and>
               (\<forall>x'. 3 \<le> length x' \<and> take 3 x' = take 3 x \<longrightarrow>
                  spamspamspam update_matrix f_funcs ?d x' t = Inr egg)"
    if h: "3 \<le> length variables \<and> 3 \<le> length x"
  proof -
    let ?n0 = "''d_'' @ str_var (snd (variables ! 0))"
    let ?n1 = "''d_'' @ str_var (snd (variables ! 1))"
    let ?n2 = "''d_'' @ str_var (snd (variables ! 2))"
    let ?dd = "\<lambda>y. dict_of [(Symbol ?n0, y ! 0), (Symbol ?n1, y ! 1), (Symbol ?n2, y ! (2::nat))]"
    have keys: "?foofoo ! 0 = Symbol ?n0" "?foofoo ! 1 = Symbol ?n1" "?foofoo ! 2 = Symbol ?n2"
    proof -
      from h have "0 < length variables" "1 < length variables" "2 < length variables"
        by auto
      then show "?foofoo ! 0 = Symbol ?n0" "?foofoo ! 1 = Symbol ?n1" "?foofoo ! 2 = Symbol ?n2"
        by (simp_all add: foofoo)
    qed
    have at: "spamspamspam update_matrix f_funcs ?d y t = Inr (map (evalf (?dd y)) ?es)"
      if "3 \<le> length y" for y :: "real list"
      using that h len keys by (simp add: run subs_dict_eq)
    have same: "spamspamspam update_matrix f_funcs ?d x' t = Inr (map (evalf (?dd x)) ?es)"
      if "3 \<le> length x' \<and> take 3 x' = take 3 x" for x'
    proof -
      from that h nth_of_take_3[of x x']
      have "x' ! 0 = x ! 0" "x' ! 1 = x ! 1" "x' ! 2 = x ! 2" by auto
      with at[of x'] that show ?thesis by simp
    qed
    have val: "eval env (map (evalf (?dd x)) ?es ! i) =
               value_of (env(?n0 := x ! 0, ?n1 := x ! 1, ?n2 := x ! 2))
                 (create_equations update_matrix f_funcs ! i)"
      if "i < length update_matrix" for i env
      using that by (simp add: eqs eval_evalf3 del: eval.simps)
    show ?thesis
      using at[of x] h same val by auto
  qed
  show ?thesis using short long by blast
qed

text \<open>
  The theorem at two inputs: with two species the evaluation raises \<open>IndexError\<close>; with
  four species and a field that references the fourth density, the result still varies
  with the value of that symbol.
\<close>

theorem spamspamspam_first_three_symbols_witness:
  "[[- 1, 1]] \<noteq> ([] :: int list list) \<and> [] \<notin> set [[- 1, 1 :: int]] \<and>
   [Mul [Number 2, Symbol ''d_a'']] \<noteq> [] \<and>
   distinct (map (symbol \<circ> snd)
     [(''a'', \<lparr>symbol = Symbol ''a'', str_var = ''a''\<rparr>),
      (''b'', \<lparr>symbol = Symbol ''b'', str_var = ''b''\<rparr>)]) \<and>
   spamspamspam [[- 1, 1]] [Mul [Number 2, Symbol ''d_a'']]
     (var_to_substitute_of
        [(''a'', \<lparr>symbol = Symbol ''a'', str_var = ''a''\<rparr>),
         (''b'', \<lparr>symbol = Symbol ''b'', str_var = ''b''\<rparr>)]) [1 / 2, 1 / 2] 0
     = Inl IndexError \<and>
   (\<exists>egg. spamspamspam [[- 1, 1, 0, 0]] [Mul [Symbol ''d_a'', Symbol ''d_d'']]
        (var_to_substitute_of
           [(''a'', \<lparr>symbol = Symbol ''a'', str_var = ''a''\<rparr>),
            (''b'', \<lparr>symbol = Symbol ''b'', str_var = ''b''\<rparr>),
            (''c'', \<lparr>symbol = Symbol ''c'', str_var = ''c''\<rparr>),
            (''d'', \<lparr>symbol = Symbol ''d'', str_var = ''d''\<rparr>)]) [1 / 2, 1 / 2, 0, 0] 0
        = Inr egg \<and> length egg = 1 \<and>
        eval ((\<lambda>s. 0)(''d_d'' := 3)) (egg ! 0) = - (3 / 2) \<and>
        eval ((\<lambda>s. 0)(''d_d'' := 5)) (egg ! 0) = - (5 / 2))"
proof -
  let ?v2 = "[(''a'', \<lparr>symbol = Symbol ''a'', str_var = ''a''\<rparr>),
              (''b'', \<lparr>symbol = Symbol ''b'', str_var = ''b''\<rparr>)]"
  let ?v4 = "[(''a'', \<lparr>symbol = Symbol ''a'', str_var = ''a''\<rparr>),
              (''b'', \<lparr>symbol = Symbol ''b'', str_var = ''b''\<rparr>),
              (''c'', \<lparr>symbol = Symbol ''c'', str_var = ''c''\<rparr>),
              (''d'', \<lparr>symbol = Symbol ''d'', str_var = ''d''\<rparr>)]"
  have h2: "[[- 1, 1]] \<noteq> ([] :: int list list)" "[] \<notin> set [[- 1, 1 :: int]]"
    "[Mul [Number 2, Symbol ''d_a'']] \<noteq> []" "distinct (map (symbol \<circ> snd) ?v2)"
    by simp_all
  have h4: "[[- 1, 1, 0, 0]] \<noteq> ([] :: int list list)" "[] \<notin> set [[- 1, 1, 0, 0 :: int]]"
    "[Mul [Symbol ''d_a'', Symbol ''d_d'']] \<noteq> []" "distinct (map (symbol \<circ> snd) ?v4)"
    by simp_all
  note short = spamspamspam_first_three_symbols[OF h2, of "[1 / 2, 1 / 2]" 0]
  note long = spamspamspam_first_three_symbols[OF h4, of "[1 / 2, 1 / 2, 0, 0]" 0]
  from short have a: "spamspamspam [[- 1, 1]] [Mul [Number 2, Symbol ''d_a'']]
     (var_to_substitute_of ?v2) [1 / 2, 1 / 2] 0 = Inl IndexError" by simp
  have eq0: "create_equations [[- 1, 1, 0, 0]] [Mul [Symbol ''d_a'', Symbol ''d_d'']] ! 0 =
    Expr (Add [Number 0, Mul [Mul [Symbol ''d_a'', Symbol ''d_d''], Number (- 1)]])"
    by (simp add: create_equations_def sum_e_def)
  from long obtain egg where egg:
    "spamspamspam [[- 1, 1, 0, 0]] [Mul [Symbol ''d_a'', Symbol ''d_d'']]
        (var_to_substitute_of ?v4) [1 / 2, 1 / 2, 0, 0] 0 = Inr egg"
    "length egg = 1"
    "\<And>env. eval env (egg ! 0) =
       value_of (env(''d_a'' := 1 / 2, ''d_b'' := 1 / 2, ''d_c'' := 0))
         (create_equations [[- 1, 1, 0, 0]] [Mul [Symbol ''d_a'', Symbol ''d_d'']] ! 0)"
    by auto
  have "eval ((\<lambda>s. 0)(''d_d'' := 3)) (egg ! 0) = - (3 / 2)"
    "eval ((\<lambda>s. 0)(''d_d'' := 5)) (egg ! 0) = - (5 / 2)"
    by (simp_all add: egg(3) eq0)
  with egg(1,2) a h2 show ?thesis by blast
qed


text \<open>
  C9 as stated fails for a model of four species: the example model with a fourth
  species \<open>x_d\<close> and a fourth reaction \<open>x_i => x_d\<close> of rate \<open>0.02 * x_i\<close>. No rate
  references \<open>x_d\<close>, so at the state \<open>[0.8, 0.2, 0, 0]\<close> the evaluation does not fail and
  none of the four results has a symbol, even in the trees of the model, which bound
  from above the symbols sympy keeps.
\<close>

theorem spamspamspam_four_species_counterexample:
  "length (var_to_substitute_of
       [(''x_s'', \<lparr>symbol = Symbol ''x_s'', str_var = ''x_s''\<rparr>),
        (''x_i'', \<lparr>symbol = Symbol ''x_i'', str_var = ''x_i''\<rparr>),
        (''x_r'', \<lparr>symbol = Symbol ''x_r'', str_var = ''x_r''\<rparr>),
        (''x_d'', \<lparr>symbol = Symbol ''x_d'', str_var = ''x_d''\<rparr>)]) = 4 \<and>
   map_sum id (map free_symbols)
     (spamspamspam [[- 1, 1, 0, 0], [0, - 1, 1, 0], [1, 0, - 1, 0], [0, - 1, 0, 1]]
        [Mul [Symbol ''d_x_i'', Symbol ''d_x_s''], Mul [Number (5 / 100), Symbol ''d_x_i''],
         Mul [Number (1 / 100), Symbol ''d_x_r''], Mul [Number (2 / 100), Symbol ''d_x_i'']]
        (var_to_substitute_of
          [(''x_s'', \<lparr>symbol = Symbol ''x_s'', str_var = ''x_s''\<rparr>),
           (''x_i'', \<lparr>symbol = Symbol ''x_i'', str_var = ''x_i''\<rparr>),
           (''x_r'', \<lparr>symbol = Symbol ''x_r'', str_var = ''x_r''\<rparr>),
           (''x_d'', \<lparr>symbol = Symbol ''x_d'', str_var = ''x_d''\<rparr>)])
        [8 / 10, 2 / 10, 0, 0] 0)
   = Inr [{}, {}, {}, {}]"
  by (simp add: var_to_substitute_of_def spamspamspam_def create_equations_def sum_e_def
      subs_dict_def index_def dict_of_def evalf_def eval_nat_numeral)


section \<open>Reactions\<close>

lemma index_of_None: "index_of a xs = None \<longleftrightarrow> a \<notin> set xs"
  by (induction xs) auto

lemma add_terms_unresolved:
  assumes "t \<in> set ts" and "snd (parse_term t) \<notin> set species"
  shows "\<exists>u \<in> set ts. snd (parse_term u) \<notin> set species \<and>
           add_terms species sign ts v = Inl (ValueError (unable_to_find (snd (parse_term u))))"
  using assms
proof (induction ts arbitrary: v)
  case Nil
  then show ?case by simp
next
  case (Cons a ts)
  show ?case
  proof (cases "index_of (snd (parse_term a)) species")
    case None
    then have "snd (parse_term a) \<notin> set species" by (simp add: index_of_None)
    with None show ?thesis by auto
  next
    case (Some i)
    then have "snd (parse_term a) \<in> set species"
      using index_of_None[of "snd (parse_term a)" species] by auto
    with Cons.prems have "t \<in> set ts" by auto
    from Cons.IH[OF this Cons.prems(2)] Some show ?thesis by auto
  qed
qed

lemma add_terms_result:
  "(\<exists>v'. add_terms species sign ts v = Inr v') \<or>
   (\<exists>u \<in> set ts. snd (parse_term u) \<notin> set species \<and>
      add_terms species sign ts v = Inl (ValueError (unable_to_find (snd (parse_term u)))))"
proof (induction ts arbitrary: v)
  case Nil
  then show ?case by simp
next
  case (Cons a ts)
  show ?case
  proof (cases "index_of (snd (parse_term a)) species")
    case None
    then have "snd (parse_term a) \<notin> set species" by (simp add: index_of_None)
    with None show ?thesis by auto
  next
    case (Some i)
    with Cons.IH[of "v[i := v ! i + sign * int (fst (parse_term a))]"] show ?thesis by auto
  qed
qed

text \<open>
  C6. A reaction string with one arrow, one of whose terms names no declared species,
  is rejected when the reaction is constructed, and the message of the error names a
  term of the string that resolves to no species.
\<close>

theorem Reaction_unresolved_token:
  assumes "split_arrow str_reaction = [pre, post]"
    and "t \<in> set (split_plus pre @ split_plus post)"
    and "snd (parse_term t) \<notin> set species"
  shows "\<exists>u \<in> set (split_plus pre @ split_plus post).
           snd (parse_term u) \<notin> set species \<and>
           Reaction str_reaction species =
             Inl (ValueError (''Unable to find reagent '' @ [CHR 0x27] @ snd (parse_term u) @
                              [CHR 0x27] @ '' inside the list of variables''))"
proof -
  let ?v0 = "replicate (length species) 0 :: int list"
  from add_terms_result[of species "- 1" "split_plus pre" ?v0]
  consider (ok) v where "add_terms species (- 1) (split_plus pre) ?v0 = Inr v"
    | (bad) u where "u \<in> set (split_plus pre)" "snd (parse_term u) \<notin> set species"
        "add_terms species (- 1) (split_plus pre) ?v0 =
           Inl (ValueError (unable_to_find (snd (parse_term u))))"
    by blast
  then show ?thesis
  proof cases
    case bad
    then show ?thesis using assms(1) by (auto simp add: Reaction_def unable_to_find_def)
  next
    case ok
    have "t \<notin> set (split_plus pre)"
    proof
      assume "t \<in> set (split_plus pre)"
      from add_terms_unresolved[OF this assms(3), of "- 1" ?v0] ok show False by auto
    qed
    then have "t \<in> set (split_plus post)" using assms(2) by simp
    from add_terms_unresolved[OF this assms(3), of 1 v]
    obtain u where "u \<in> set (split_plus post)" "snd (parse_term u) \<notin> set species"
      "add_terms species 1 (split_plus post) v =
         Inl (ValueError (unable_to_find (snd (parse_term u))))" by blast
    then show ?thesis using assms(1) ok by (auto simp add: Reaction_def unable_to_find_def)
  qed
qed

lemma split_arrow_test: "split_arrow ''R1 + R2 => 2 P1'' = [''R1 + R2 '', '' 2 P1'']"
  by code_simp

lemma split_plus_test: "split_plus ''R1 + R2 '' = [''R1 '', '' R2 '']"
  by code_simp

lemma parse_term_test: "parse_term ''R1 '' = (1, ''R1'')"
  by code_simp

text \<open>The reaction of the test, \<open>R1 + R2 => 2 P1\<close> over the species \<open>x_s\<close>, \<open>x_i\<close>,
  \<open>x_r\<close>: its first term names no species, and the message names \<open>R1\<close>.\<close>

lemma Reaction_test_message:
  "Reaction ''R1 + R2 => 2 P1'' [''x_s'', ''x_i'', ''x_r''] =
     Inl (ValueError (''Unable to find reagent '' @ [CHR 0x27] @ ''R1'' @ [CHR 0x27] @
                      '' inside the list of variables''))"
  by code_simp

theorem Reaction_unresolved_token_witness:
  "split_arrow ''R1 + R2 => 2 P1'' = [''R1 + R2 '', '' 2 P1''] \<and>
   ''R1 '' \<in> set (split_plus ''R1 + R2 '' @ split_plus '' 2 P1'') \<and>
   snd (parse_term ''R1 '') \<notin> set [''x_s'', ''x_i'', ''x_r''] \<and>
   (\<exists>u \<in> set (split_plus ''R1 + R2 '' @ split_plus '' 2 P1'').
           snd (parse_term u) \<notin> set [''x_s'', ''x_i'', ''x_r''] \<and>
           Reaction ''R1 + R2 => 2 P1'' [''x_s'', ''x_i'', ''x_r''] =
             Inl (ValueError (''Unable to find reagent '' @ [CHR 0x27] @ snd (parse_term u) @
                              [CHR 0x27] @ '' inside the list of variables'')))"
proof -
  have a: "split_arrow ''R1 + R2 => 2 P1'' = [''R1 + R2 '', '' 2 P1'']"
    by (rule split_arrow_test)
  have b: "''R1 '' \<in> set (split_plus ''R1 + R2 '' @ split_plus '' 2 P1'')"
    by (simp add: split_plus_test)
  have c: "snd (parse_term ''R1 '') \<notin> set [''x_s'', ''x_i'', ''x_r'']"
    by (simp add: parse_term_test)
  from Reaction_unresolved_token[OF a b c] a b c show ?thesis by blast
qed

lemma index_of_Some: "index_of a xs = Some j \<Longrightarrow> j < length xs \<and> xs ! j = a"
  by (induction xs arbitrary: j) (auto split: if_splits)

lemma index_of_mem: "a \<in> set xs \<Longrightarrow> \<exists>j. index_of a xs = Some j"
  by (induction xs) auto

lemma coefficient_Cons:
  "coefficient name (t # ts) =
     (if snd (parse_term t) = name then int (fst (parse_term t)) else 0) + coefficient name ts"
  by (simp add: coefficient_def)

lemma add_terms_resolved:
  assumes "distinct species" and "length v = length species"
    and "set (map (\<lambda>t. snd (parse_term t)) ts) \<subseteq> set species"
  shows "\<exists>v'. add_terms species sign ts v = Inr v' \<and> length v' = length species \<and>
           (\<forall>i < length species. v' ! i = v ! i + sign * coefficient (species ! i) ts)"
  using assms(2,3)
proof (induction ts arbitrary: v)
  case Nil
  then show ?case by (simp add: coefficient_def)
next
  case (Cons a ts)
  let ?name = "snd (parse_term a)"
  let ?c = "int (fst (parse_term a))"
  from Cons.prems(2) have "?name \<in> set species" by simp
  then obtain j where j: "index_of ?name species = Some j" using index_of_mem by fastforce
  then have jl: "j < length species" and jn: "species ! j = ?name"
    using index_of_Some by fastforce+
  let ?v1 = "v[j := v ! j + sign * ?c]"
  have "length ?v1 = length species" using Cons.prems(1) by simp
  moreover have "set (map (\<lambda>t. snd (parse_term t)) ts) \<subseteq> set species"
    using Cons.prems(2) by simp
  ultimately obtain v' where v': "add_terms species sign ts ?v1 = Inr v'"
    "length v' = length species"
    "\<forall>i < length species. v' ! i = ?v1 ! i + sign * coefficient (species ! i) ts"
    using Cons.IH[of ?v1] by blast
  have "v' ! i = v ! i + sign * coefficient (species ! i) (a # ts)" if i: "i < length species" for i
  proof (cases "i = j")
    case True
    with v'(3) i jn Cons.prems(1) show ?thesis
      by (simp add: coefficient_Cons algebra_simps)
  next
    case False
    with assms(1) i jl jn have "?name \<noteq> species ! i"
      by (metis nth_eq_iff_index_eq)
    with v'(3) i False show ?thesis by (simp add: coefficient_Cons)
  qed
  with v'(1,2) j show ?case by simp
qed

text \<open>
  C7. For a reaction string with one arrow over distinct species, all of whose terms
  name a species, the update vector has one entry per species: the coefficient of the
  species among the products minus its coefficient among the reactants. Over the species
  \<open>x_s\<close>, \<open>x_i\<close>, \<open>x_r\<close> the three reactions of the tests have the update vectors
  \<open>[-1, 1, 0]\<close>, \<open>[-1, -1, 1]\<close> and \<open>[-3, -1, 1]\<close>.
\<close>

theorem Reaction_update_vectors:
  "(split_arrow str_reaction = [pre, post] \<and> distinct species \<and>
    set (map (\<lambda>t. snd (parse_term t)) (split_plus pre @ split_plus post)) \<subseteq> set species
    \<longrightarrow> (\<exists>v. Reaction str_reaction species = Inr \<lparr>update_vector = v\<rparr> \<and>
            length v = length species \<and>
            (\<forall>i < length species.
               v ! i = coefficient (species ! i) (split_plus post)
                       - coefficient (species ! i) (split_plus pre)))) \<and>
   Reaction ''x_s => x_i'' [''x_s'', ''x_i'', ''x_r''] = Inr \<lparr>update_vector = [- 1, 1, 0]\<rparr> \<and>
   Reaction ''x_s + x_i => x_r'' [''x_s'', ''x_i'', ''x_r''] = Inr \<lparr>update_vector = [- 1, - 1, 1]\<rparr> \<and>
   Reaction ''3x_s + x_i => x_r'' [''x_s'', ''x_i'', ''x_r''] = Inr \<lparr>update_vector = [- 3, - 1, 1]\<rparr>"
proof -
  have general: "\<exists>v. Reaction str_reaction species = Inr \<lparr>update_vector = v\<rparr> \<and>
            length v = length species \<and>
            (\<forall>i < length species.
               v ! i = coefficient (species ! i) (split_plus post)
                       - coefficient (species ! i) (split_plus pre))"
    if arrow: "split_arrow str_reaction = [pre, post]" and dist: "distinct species"
      and res: "set (map (\<lambda>t. snd (parse_term t)) (split_plus pre @ split_plus post))
                  \<subseteq> set species"
  proof -
    let ?v0 = "replicate (length species) 0 :: int list"
    from res have rpre: "set (map (\<lambda>t. snd (parse_term t)) (split_plus pre)) \<subseteq> set species"
      and rpost: "set (map (\<lambda>t. snd (parse_term t)) (split_plus post)) \<subseteq> set species"
      by auto
    from add_terms_resolved[OF dist _ rpre, of ?v0 "- 1"]
    obtain v1 where v1: "add_terms species (- 1) (split_plus pre) ?v0 = Inr v1"
      "length v1 = length species"
      "\<forall>i < length species. v1 ! i = ?v0 ! i + (- 1) * coefficient (species ! i) (split_plus pre)"
      by auto
    from add_terms_resolved[OF dist v1(2) rpost, of 1]
    obtain v2 where v2: "add_terms species 1 (split_plus post) v1 = Inr v2"
      "length v2 = length species"
      "\<forall>i < length species. v2 ! i = v1 ! i + 1 * coefficient (species ! i) (split_plus post)"
      by auto
    have "Reaction str_reaction species = Inr \<lparr>update_vector = v2\<rparr>"
      using arrow v1(1) v2(1) by (simp add: Reaction_def)
    moreover have "v2 ! i = coefficient (species ! i) (split_plus post)
                       - coefficient (species ! i) (split_plus pre)" if "i < length species" for i
      using that v1(3) v2(3) by simp
    ultimately show ?thesis using v2(2) by blast
  qed
  have ex: "Reaction ''x_s => x_i'' [''x_s'', ''x_i'', ''x_r''] = Inr \<lparr>update_vector = [- 1, 1, 0]\<rparr> \<and>
   Reaction ''x_s + x_i => x_r'' [''x_s'', ''x_i'', ''x_r''] = Inr \<lparr>update_vector = [- 1, - 1, 1]\<rparr> \<and>
   Reaction ''3x_s + x_i => x_r'' [''x_s'', ''x_i'', ''x_r''] = Inr \<lparr>update_vector = [- 3, - 1, 1]\<rparr>"
    by code_simp
  from general ex show ?thesis by blast
qed

text \<open>The theorem at the first reaction of the example model, \<open>x_s + x_i => x_i + x_i\<close>,
  where \<open>x_i\<close> stands on both sides and twice among the products.\<close>

theorem Reaction_update_vectors_witness:
  "split_arrow ''x_s + x_i => x_i + x_i'' = [''x_s + x_i '', '' x_i + x_i''] \<and>
   distinct [''x_s'', ''x_i'', ''x_r''] \<and>
   set (map (\<lambda>t. snd (parse_term t)) (split_plus ''x_s + x_i '' @ split_plus '' x_i + x_i''))
     \<subseteq> set [''x_s'', ''x_i'', ''x_r''] \<and>
   map (\<lambda>name. coefficient name (split_plus '' x_i + x_i'')
                - coefficient name (split_plus ''x_s + x_i '')) [''x_s'', ''x_i'', ''x_r'']
     = [- 1, 1, 0] \<and>
   (\<exists>v. Reaction ''x_s + x_i => x_i + x_i'' [''x_s'', ''x_i'', ''x_r'']
           = Inr \<lparr>update_vector = v\<rparr> \<and>
        length v = length [''x_s'', ''x_i'', ''x_r''] \<and>
        (\<forall>i < length [''x_s'', ''x_i'', ''x_r''].
           v ! i = coefficient ([''x_s'', ''x_i'', ''x_r''] ! i) (split_plus '' x_i + x_i'')
                   - coefficient ([''x_s'', ''x_i'', ''x_r''] ! i) (split_plus ''x_s + x_i '')))"
proof -
  have a: "split_arrow ''x_s + x_i => x_i + x_i'' = [''x_s + x_i '', '' x_i + x_i'']"
    by code_simp
  have b: "distinct [''x_s'', ''x_i'', ''x_r'']" by simp
  have c: "set (map (\<lambda>t. snd (parse_term t)) (split_plus ''x_s + x_i '' @ split_plus '' x_i + x_i''))
     \<subseteq> set [''x_s'', ''x_i'', ''x_r'']"
    by code_simp
  have d: "map (\<lambda>name. coefficient name (split_plus '' x_i + x_i'')
                - coefficient name (split_plus ''x_s + x_i '')) [''x_s'', ''x_i'', ''x_r'']
     = [- 1, 1, 0]"
    by code_simp
  from Reaction_update_vectors[of "''x_s + x_i => x_i + x_i''" "''x_s + x_i ''" "'' x_i + x_i''"
      "[''x_s'', ''x_i'', ''x_r'']"] a b c d
  show ?thesis by blast
qed

section \<open>Evaluating the rate functions\<close>

text \<open>
  C5. Evaluating a collection of rate functions at a state fails exactly when the length
  of the state differs from the number of rate functions, whatever the number of
  species; the message of the failure names both sizes.
\<close>

theorem evaluate_shapes_mismatch:
  "((\<exists>e. evaluate species rate_functions state = Inl e) \<longleftrightarrow>
      length state \<noteq> length rate_functions) \<and>
   (length state \<noteq> length rate_functions \<longrightarrow>
      evaluate species rate_functions state =
        Inl (ValueError (''Array shapes mismatch: input vector '' @ str_nat (length state) @
                         '', rate functions '' @ str_nat (length rate_functions) @ ''.'')))"
  by (simp add: evaluate_def shapes_mismatch_def)

text \<open>The model against the other test of the collection: the three rate functions of
  the tests at the state \<open>[80, 20, 0]\<close> have the values \<open>-2\<close>, \<open>16\<close> and \<open>-100\<close>.\<close>

lemma evaluate_test_point:
  "map_sum id (map (eval (\<lambda>s. 0)))
     (evaluate [''x_s'', ''x_i'', ''x_r'']
        [\<lparr>sym_function = Number (- 2)\<rparr>,
         \<lparr>sym_function = Mul [Number (1 / 100), Symbol ''x_i'', Symbol ''x_s'']\<rparr>,
         \<lparr>sym_function = Add [Mul [Number (- 6), Symbol ''x_s'', Symbol ''x_i'',
                                    Pow_e (Max_e [Symbol ''x_i'', Symbol ''x_s'']) (Number (- 1))],
                               Mul [Number 1, Symbol ''x_i''], Symbol ''x_r'']\<rparr>]
        [80, 20, 0])
   = Inr [- 2, 16, - 100]"
  by (simp add: evaluate_def evalf_def pow_real_minus1)

text \<open>The state of the test, of length two, against three rate functions.\<close>

theorem evaluate_shapes_mismatch_witness:
  "length [1, 2 :: real] \<noteq> length [\<lparr>sym_function = Number (- 2)\<rparr>,
        \<lparr>sym_function = Mul [Number (1 / 100), Symbol ''x_i'', Symbol ''x_s'']\<rparr>,
        \<lparr>sym_function = Symbol ''x_r''\<rparr>] \<and>
   evaluate [''x_s'', ''x_i'', ''x_r'']
       [\<lparr>sym_function = Number (- 2)\<rparr>,
        \<lparr>sym_function = Mul [Number (1 / 100), Symbol ''x_i'', Symbol ''x_s'']\<rparr>,
        \<lparr>sym_function = Symbol ''x_r''\<rparr>] [1, 2]
     = Inl (ValueError ''Array shapes mismatch: input vector 2, rate functions 3.'')"
proof -
  let ?rfs = "[\<lparr>sym_function = Number (- 2)\<rparr>,
          \<lparr>sym_function = Mul [Number (1 / 100), Symbol ''x_i'', Symbol ''x_s'']\<rparr>,
          \<lparr>sym_function = Symbol ''x_r''\<rparr>]"
  have m: "''Array shapes mismatch: input vector '' @ str_nat (length [1, 2 :: real]) @
           '', rate functions '' @ str_nat (length ?rfs) @ ''.'' =
           ''Array shapes mismatch: input vector 2, rate functions 3.''"
    by code_simp
  from evaluate_shapes_mismatch[of "[''x_s'', ''x_i'', ''x_r'']" ?rfs "[1, 2]", unfolded m]
  show ?thesis by simp
qed

section \<open>Blank documents\<close>

text \<open>
  C8. For a document made of white space only (the empty document among them) the
  converter returns \<open>None\<close>: it neither fails, as it does for a malformed document, nor
  returns a mapping.
\<close>

theorem blank_document_is_None:
  assumes "list_all is_space s"
  shows "yaml_string_to_dict_converter load s = Inr None \<and>
         (\<forall>e. yaml_string_to_dict_converter load s \<noteq> Inl e) \<and>
         (\<forall>doc. yaml_string_to_dict_converter load s \<noteq> Inr (Some doc))"
  using assms by (simp add: yaml_string_to_dict_converter_def)

text \<open>The two blank documents of the tests, the empty one and a single line break, next
  to a document that the parser rejects.\<close>

theorem blank_document_is_None_witness:
  "list_all is_space [] \<and> list_all is_space [CHR 0x0A] \<and>
   yaml_string_to_dict_converter (\<lambda>s. Inl MalformedSyntax :: error + unit) [] = Inr None \<and>
   yaml_string_to_dict_converter (\<lambda>s. Inl MalformedSyntax :: error + unit) [CHR 0x0A] = Inr None \<and>
   yaml_string_to_dict_converter (\<lambda>s. Inl MalformedSyntax :: error + unit) ''Species: ['' =
     Inl MalformedSyntax"
proof -
  have a: "list_all is_space []" by simp
  have b: "list_all is_space [CHR 0x0A]" by (simp add: is_space_def)
  have c: "\<not> list_all is_space ''Species: [''" by (simp add: is_space_def)
  show ?thesis
    using blank_document_is_None[OF a, of "\<lambda>s. Inl MalformedSyntax :: error + unit"]
      blank_document_is_None[OF b, of "\<lambda>s. Inl MalformedSyntax :: error + unit"] a b c
    by (simp add: yaml_string_to_dict_converter_def)
qed

section \<open>The unused argument\<close>

text \<open>
  C10. The positional argument \<open>function_rate\<close> of \<open>fluid_approximation\<close> is never
  read: two calls that differ only in it print the same and return the same.
\<close>

theorem fluid_approximation_ignores_function_rate:
  "fluid_approximation limit odeint update_matrix initial_conditions function_rate t_max kwargs =
   fluid_approximation limit odeint update_matrix initial_conditions function_rate' t_max kwargs"
  by (simp add: fluid_approximation_def)

end
